theory Spec2Isabelle
  imports Complex_Main
begin

section \<open>The parameter panel of metaSVG Print\<close>

text \<open>
  A shallow embedding of the script part of
  \<^verbatim>\<open>src/laser_frontend/src/components/Parameters.vue\<close>.

  The component never computes with the numeric values it holds: it stores them, copies
  them from a preset and hands them to its owner. The numeric fields are therefore kept
  polymorphic in a type \<open>'n\<close> of numbers; only the built-in defaults of \<open>data\<close> fix it
  (to \<open>real\<close>, for the literals \<^verbatim>\<open>0.05\<close> and friends). Preset names, notes and the style
  are strings. Calls of \<^verbatim>\<open>console.log\<close> are left out.
\<close>

subsection \<open>Data\<close>

text \<open>One entry of the \<^verbatim>\<open>presets\<close> property. The key \<^verbatim>\<open>preset\<close> is the preset's name.\<close>

record 'n preset_entry =
  p_preset :: string
  p_notes :: string
  p_thickness :: 'n
  p_width :: 'n
  p_height :: 'n
  p_kerf :: 'n
  p_boxC :: 'n
  p_boxL :: 'n
  p_boxI :: 'n
  p_tabC :: 'n
  p_tabL :: 'n
  p_tabI :: 'n
  p_slotC :: 'n
  p_slotL :: 'n
  p_slotI :: 'n
  p_style :: string

text \<open>The reactive data of the component (the object returned by \<^verbatim>\<open>data\<close>).\<close>

record 'n data =
  scale :: 'n
  preset :: string
  "notes" :: string
  thickness :: 'n
  width :: 'n
  height :: 'n
  kerf :: 'n
  boxC :: 'n
  boxL :: 'n
  boxI :: 'n
  tabC :: 'n
  tabL :: 'n
  tabI :: 'n
  slotC :: 'n
  slotL :: 'n
  slotI :: 'n
  style :: string

text \<open>The object literal that \<^verbatim>\<open>applyParams\<close> passes to \<^verbatim>\<open>$emit("update", ...)\<close>.\<close>

record 'n update_payload =
  u_preset :: string
  u_notes :: string
  u_scale :: 'n
  u_thickness :: 'n
  u_width :: 'n
  u_height :: 'n
  u_kerf :: 'n
  u_boxC :: 'n
  u_boxL :: 'n
  u_boxI :: 'n
  u_tabC :: 'n
  u_tabL :: 'n
  u_tabI :: 'n
  u_slotC :: 'n
  u_slotL :: 'n
  u_slotI :: 'n
  u_style :: string

text \<open>The two events the component emits.\<close>

datatype 'n event = Update "'n update_payload" | Download

text \<open>
  The \<^verbatim>\<open>select\<close> element behind \<^verbatim>\<open>$refs.presets\<close>: its options in document order. Which
  option is marked as selected is the browser's own state and is not modelled; the
  assignment to \<^verbatim>\<open>select.value\<close> in line 138 and the \<^verbatim>\<open>console.log\<close> of line 139 only
  write and read that mark.
\<close>

record option_el =
  opt_value :: string
  opt_text :: string
  opt_disabled :: bool

record select_el =
  options :: "option_el list"

text \<open>
  The component instance: its data, the \<^verbatim>\<open>presets\<close> property, the \<^verbatim>\<open>select\<close> element and
  the events emitted so far, oldest first.
\<close>

record 'n panel =
  dat :: "'n data"
  presets :: "'n preset_entry list"
  select :: select_el
  emitted :: "'n event list"

subsection \<open>The select element\<close>

text \<open>
  Assigning the markup of line 129 to \<^verbatim>\<open>innerHTML\<close> leaves two options: a disabled
  placeholder with an empty value, and \<^verbatim>\<open>custom\<close>.
\<close>

definition set_innerHTML :: "select_el" where
  "set_innerHTML =
     \<lparr>options =
        [\<lparr>opt_value = '''', opt_text = ''Please select one'', opt_disabled = True\<rparr>,
         \<lparr>opt_value = ''custom'', opt_text = ''custom'', opt_disabled = False\<rparr>]\<rparr>"

text \<open>Lines 132 to 135: a new option whose value and text are the preset's name.\<close>

definition appendChild :: "string \<Rightarrow> select_el \<Rightarrow> select_el" where
  "appendChild name sel =
     sel\<lparr>options := options sel @
       [\<lparr>opt_value = name, opt_text = name, opt_disabled = False\<rparr>]\<rparr>"

text \<open>The values an operator can pick in the dropdown: those of the enabled options.\<close>

definition selectable :: "select_el \<Rightarrow> string list" where
  "selectable sel = map opt_value (filter (\<lambda>opt. \<not> opt_disabled opt) (options sel))"

subsection \<open>Methods\<close>

text \<open>The defaults of \<^verbatim>\<open>data\<close>, lines 96 to 111.\<close>

definition data_init :: "real data" where
  "data_init =
     \<lparr>scale = 1.0, preset = ''custom'', notes = ''No notes'',
      thickness = 3.0, width = 450.0, height = 300.0, kerf = 0.05,
      boxC = 0, boxL = 0, boxI = 0,
      tabC = 0, tabL = 0, tabI = 0,
      slotC = 0, slotL = 0, slotI = 0,
      style = ''stroke:#ff00ff;stroke-width:5px;''\<rparr>"

text \<open>\<^verbatim>\<open>applyParams\<close>, lines 170 to 191: one \<^verbatim>\<open>update\<close> event built from the data.\<close>

definition applyParams :: "'n panel \<Rightarrow> 'n panel" where
  "applyParams s =
     s\<lparr>emitted := emitted s @
       [Update
         \<lparr>u_preset = preset (dat s),
          u_notes = notes (dat s),
          u_scale = scale (dat s),
          u_thickness = thickness (dat s),
          u_width = width (dat s),
          u_height = height (dat s),
          u_kerf = kerf (dat s),
          u_boxC = boxC (dat s), u_boxL = boxL (dat s), u_boxI = boxI (dat s),
          u_tabC = tabC (dat s), u_tabL = tabL (dat s), u_tabI = tabI (dat s),
          u_slotC = slotC (dat s), u_slotL = slotL (dat s), u_slotI = slotI (dat s),
          u_style = style (dat s)\<rparr>]\<rparr>"

text \<open>The fifteen assignments of lines 150 to 164.\<close>

definition assign_fields :: "'n preset_entry \<Rightarrow> 'n data \<Rightarrow> 'n data" where
  "assign_fields p d =
     d\<lparr>notes := p_notes p,
       thickness := p_thickness p,
       width := p_width p,
       height := p_height p,
       kerf := p_kerf p,
       boxC := p_boxC p,
       boxL := p_boxL p,
       boxI := p_boxI p,
       tabC := p_tabC p,
       tabL := p_tabL p,
       tabI := p_tabI p,
       slotC := p_slotC p,
       slotL := p_slotL p,
       slotI := p_slotI p,
       style := p_style p\<rparr>"

text \<open>
  The loop of \<^verbatim>\<open>applyPreset\<close>, lines 148 to 168, over the entries still to visit. On the
  first entry whose name is \<^verbatim>\<open>this.preset\<close> it assigns the fields, calls
  \<^verbatim>\<open>applyParams\<close> and breaks; when no entry matches it does nothing.
\<close>

fun applyPreset_loop :: "'n preset_entry list \<Rightarrow> 'n panel \<Rightarrow> 'n panel" where
  "applyPreset_loop [] s = s"
| "applyPreset_loop (p # ps) s =
     (if p_preset p = preset (dat s)
      then applyParams (s\<lparr>dat := assign_fields p (dat s)\<rparr>)
      else applyPreset_loop ps s)"

definition applyPreset :: "'n panel \<Rightarrow> 'n panel" where
  "applyPreset s = applyPreset_loop (presets s) s"

text \<open>
  \<^verbatim>\<open>updatePresetsOptions\<close>, lines 125 to 144: rebuild the options (lines 129 to 136), and
  when there is a first preset store its name in \<^verbatim>\<open>this.preset\<close> and call
  \<^verbatim>\<open>applyPreset\<close> (lines 137 to 141); then \<^verbatim>\<open>applyParams\<close> in every case (line 143).
  The chained assignment of line 138 gives \<^verbatim>\<open>this.preset\<close> the name itself.
\<close>

definition rebuild_options :: "'n preset_entry list \<Rightarrow> select_el" where
  "rebuild_options ps = fold (\<lambda>p sel. appendChild (p_preset p) sel) ps set_innerHTML"

definition updatePresetsOptions :: "'n panel \<Rightarrow> 'n panel" where
  "updatePresetsOptions s =
     (let s1 = s\<lparr>select := rebuild_options (presets s)\<rparr>;
          s2 = (case presets s1 of
                  [] \<Rightarrow> s1
                | p0 # _ \<Rightarrow>
                    applyPreset (s1\<lparr>dat := (dat s1)\<lparr>preset := p_preset p0\<rparr>\<rparr>))
      in applyParams s2)"

text \<open>\<^verbatim>\<open>downloadsvg\<close>, lines 192 to 194.\<close>

definition downloadsvg :: "'n panel \<Rightarrow> 'n panel" where
  "downloadsvg s = s\<lparr>emitted := emitted s @ [Download]\<rparr>"

subsection \<open>The operations of the panel\<close>

text \<open>
  The template and the watcher bind the methods to what an owner or an operator can do.

  \<^item> The owner replaces the \<^verbatim>\<open>presets\<close> property; the watcher of lines 113 to 116 calls
    \<^verbatim>\<open>updatePresetsOptions\<close>.
  \<^item> The operator picks an option of the dropdown (line 11): \<^verbatim>\<open>v-model\<close> stores its value
    in \<^verbatim>\<open>this.preset\<close>, then the change handler \<^verbatim>\<open>applyPreset\<close> runs.
  \<^item> The operator edits one input (lines 6 to 81): \<^verbatim>\<open>v-model\<close> stores the value in the
    field, then the change handler \<^verbatim>\<open>applyParams\<close> runs.
  \<^item> The operator presses the export button (line 87).
\<close>

definition onCatalogReplaced :: "'n preset_entry list \<Rightarrow> 'n panel \<Rightarrow> 'n panel" where
  "onCatalogReplaced newCatalog s = updatePresetsOptions (s\<lparr>presets := newCatalog\<rparr>)"

definition selectPreset :: "string \<Rightarrow> 'n panel \<Rightarrow> 'n panel" where
  "selectPreset name s =
     applyPreset (s\<lparr>dat := (dat s)\<lparr>preset := name\<rparr>\<rparr>)"

datatype 'n edit =
    EditScale 'n
  | EditNotes string
  | EditThickness 'n
  | EditWidth 'n
  | EditHeight 'n
  | EditKerf 'n
  | EditBoxC 'n | EditBoxL 'n | EditBoxI 'n
  | EditTabC 'n | EditTabL 'n | EditTabI 'n
  | EditSlotC 'n | EditSlotL 'n | EditSlotI 'n
  | EditStyle string

fun store_edit :: "'n edit \<Rightarrow> 'n data \<Rightarrow> 'n data" where
  "store_edit (EditScale v) d = d\<lparr>scale := v\<rparr>"
| "store_edit (EditNotes v) d = d\<lparr>notes := v\<rparr>"
| "store_edit (EditThickness v) d = d\<lparr>thickness := v\<rparr>"
| "store_edit (EditWidth v) d = d\<lparr>width := v\<rparr>"
| "store_edit (EditHeight v) d = d\<lparr>height := v\<rparr>"
| "store_edit (EditKerf v) d = d\<lparr>kerf := v\<rparr>"
| "store_edit (EditBoxC v) d = d\<lparr>boxC := v\<rparr>"
| "store_edit (EditBoxL v) d = d\<lparr>boxL := v\<rparr>"
| "store_edit (EditBoxI v) d = d\<lparr>boxI := v\<rparr>"
| "store_edit (EditTabC v) d = d\<lparr>tabC := v\<rparr>"
| "store_edit (EditTabL v) d = d\<lparr>tabL := v\<rparr>"
| "store_edit (EditTabI v) d = d\<lparr>tabI := v\<rparr>"
| "store_edit (EditSlotC v) d = d\<lparr>slotC := v\<rparr>"
| "store_edit (EditSlotL v) d = d\<lparr>slotL := v\<rparr>"
| "store_edit (EditSlotI v) d = d\<lparr>slotI := v\<rparr>"
| "store_edit (EditStyle v) d = d\<lparr>style := v\<rparr>"

definition editField :: "'n edit \<Rightarrow> 'n panel \<Rightarrow> 'n panel" where
  "editField e s = applyParams (s\<lparr>dat := store_edit e (dat s)\<rparr>)"

definition requestExport :: "'n panel \<Rightarrow> 'n panel" where
  "requestExport s = downloadsvg s"

text \<open>
  A fresh component holding the property \<open>ps\<close>, before and after the \<^verbatim>\<open>mounted\<close> hook of
  lines 118 to 123. The template of lines 11 to 14 gives the dropdown a disabled
  placeholder and an option \<^verbatim>\<open>custom\<close> whose value is empty.
\<close>

definition created :: "real preset_entry list \<Rightarrow> real panel" where
  "created ps =
     \<lparr>dat = data_init, presets = ps,
      select = \<lparr>options =
                  [\<lparr>opt_value = '''', opt_text = ''Please select one'', opt_disabled = True\<rparr>,
                   \<lparr>opt_value = '''', opt_text = ''custom'', opt_disabled = False\<rparr>]\<rparr>,
      emitted = []\<rparr>"

definition mounted :: "real preset_entry list \<Rightarrow> real panel" where
  "mounted ps = updatePresetsOptions (created ps)"

subsection \<open>Predicates of the specification\<close>

text \<open>Every field a preset carries has, in the data, the preset's value.\<close>

definition fields_match :: "'n preset_entry \<Rightarrow> 'n data \<Rightarrow> bool" where
  "fields_match p d \<longleftrightarrow>
     notes d = p_notes p \<and> thickness d = p_thickness p \<and>
     width d = p_width p \<and> height d = p_height p \<and> kerf d = p_kerf p \<and>
     boxC d = p_boxC p \<and> boxL d = p_boxL p \<and> boxI d = p_boxI p \<and>
     tabC d = p_tabC p \<and> tabL d = p_tabL p \<and> tabI d = p_tabI p \<and>
     slotC d = p_slotC p \<and> slotL d = p_slotL p \<and> slotI d = p_slotI p \<and>
     style d = p_style p"

text \<open>A payload carries every field of the data, with the data's value.\<close>

definition reflects :: "'n update_payload \<Rightarrow> 'n data \<Rightarrow> bool" where
  "reflects u d \<longleftrightarrow>
     u_preset u = preset d \<and> u_notes u = notes d \<and> u_scale u = scale d \<and>
     u_thickness u = thickness d \<and> u_width u = width d \<and> u_height u = height d \<and>
     u_kerf u = kerf d \<and>
     u_boxC u = boxC d \<and> u_boxL u = boxL d \<and> u_boxI u = boxI d \<and>
     u_tabC u = tabC d \<and> u_tabL u = tabL d \<and> u_tabI u = tabI d \<and>
     u_slotC u = slotC d \<and> u_slotL u = slotL d \<and> u_slotI u = slotI d \<and>
     u_style u = style d"

text \<open>
  Catalogue entries for the examples: the preset of the specification's scenario A, a
  second preset, and a preset that carries the name \<^verbatim>\<open>custom\<close>.
\<close>

definition ply3mm :: "real preset_entry" where
  "ply3mm =
     \<lparr>p_preset = ''ply3mm'', p_notes = ''plywood'',
      p_thickness = 3, p_width = 450, p_height = 300, p_kerf = 0.1,
      p_boxC = 0, p_boxL = 0, p_boxI = 0,
      p_tabC = 0, p_tabL = 0, p_tabI = 0,
      p_slotC = 0, p_slotL = 0, p_slotI = 0,
      p_style = ''stroke:#000000;''\<rparr>"

definition acrylic5mm :: "real preset_entry" where
  "acrylic5mm = ply3mm\<lparr>p_preset := ''acrylic5mm'', p_thickness := 5, p_kerf := 0.2\<rparr>"

definition custom_named :: "real preset_entry" where
  "custom_named = ply3mm\<lparr>p_preset := ''custom''\<rparr>"

section \<open>Properties\<close>

subsection \<open>The loop of applyPreset\<close>

lemma applyPreset_loop_no_match:
  "preset (dat s) \<notin> p_preset ` set ps \<Longrightarrow> applyPreset_loop ps s = s"
  by (induction ps) auto

lemma applyPreset_loop_first_match:
  "preset (dat s) \<notin> p_preset ` set pre \<Longrightarrow> p_preset p = preset (dat s) \<Longrightarrow>
   applyPreset_loop (pre @ p # post) s = applyParams (s\<lparr>dat := assign_fields p (dat s)\<rparr>)"
  by (induction pre) auto

lemma fields_match_assign: "fields_match p (assign_fields p d)"
  by (simp add: fields_match_def assign_fields_def)

lemma preset_assign: "preset (assign_fields p d) = preset d"
  by (simp add: assign_fields_def)

lemma scale_assign: "scale (assign_fields p d) = scale d"
  by (simp add: assign_fields_def)

lemma dat_applyParams: "dat (applyParams s) = dat s"
  by (simp add: applyParams_def)

lemma presets_applyParams: "presets (applyParams s) = presets s"
  by (simp add: applyParams_def)

lemma select_applyParams: "select (applyParams s) = select s"
  by (simp add: applyParams_def)

lemma presets_applyPreset_loop: "presets (applyPreset_loop ps s) = presets s"
  by (induction ps) (simp_all add: presets_applyParams)

lemma select_applyPreset_loop: "select (applyPreset_loop ps s) = select s"
  by (induction ps) (simp_all add: select_applyParams)

lemma scale_applyPreset_loop: "scale (dat (applyPreset_loop ps s)) = scale (dat s)"
  by (induction ps) (simp_all add: dat_applyParams scale_assign)

lemma presets_updatePresetsOptions: "presets (updatePresetsOptions s) = presets s"
  by (cases "presets s")
     (simp_all add: updatePresetsOptions_def Let_def presets_applyParams applyPreset_def
        presets_applyPreset_loop)

lemma presets_mounted: "presets (mounted ps) = ps"
  by (simp add: mounted_def presets_updatePresetsOptions created_def)

lemma presets_editField: "presets (editField e s) = presets s"
  by (simp add: editField_def presets_applyParams)

subsection \<open>What applyParams emits\<close>

lemma emitted_applyParams:
  "\<exists>u. emitted (applyParams s) = emitted s @ [Update u] \<and> reflects u (dat (applyParams s))"
  by (simp add: applyParams_def reflects_def)

lemma applyParams_twice:
  "\<exists>u. emitted (applyParams (applyParams s)) = emitted s @ [Update u, Update u] \<and>
       reflects u (dat (applyParams (applyParams s)))"
  by (simp add: applyParams_def reflects_def)

subsection \<open>The operations, unfolded\<close>

lemma selectPreset_first_match:
  assumes "presets s = pre @ P # post" and "p_preset P \<notin> p_preset ` set pre"
  shows "selectPreset (p_preset P) s =
         applyParams (s\<lparr>dat := assign_fields P ((dat s)\<lparr>preset := p_preset P\<rparr>)\<rparr>)"
proof -
  let ?s = "s\<lparr>dat := (dat s)\<lparr>preset := p_preset P\<rparr>\<rparr>"
  have "applyPreset_loop (pre @ P # post) ?s = applyParams (?s\<lparr>dat := assign_fields P (dat ?s)\<rparr>)"
    by (rule applyPreset_loop_first_match) (use assms(2) in simp_all)
  then show ?thesis
    by (simp add: selectPreset_def applyPreset_def assms(1))
qed

lemma selectPreset_no_match:
  assumes "name \<notin> p_preset ` set (presets s)"
  shows "selectPreset name s = s\<lparr>dat := (dat s)\<lparr>preset := name\<rparr>\<rparr>"
  unfolding selectPreset_def applyPreset_def
  by (rule applyPreset_loop_no_match[THEN trans]) (use assms in simp_all)

lemma onCatalogReplaced_Nil:
  "onCatalogReplaced [] s =
   applyParams (s\<lparr>presets := [], select := rebuild_options (presets (s\<lparr>presets := []\<rparr>))\<rparr>)"
  by (simp add: onCatalogReplaced_def updatePresetsOptions_def)

lemma onCatalogReplaced_Cons:
  "onCatalogReplaced (P1 # rest) s =
   applyParams (applyParams
     (s\<lparr>presets := P1 # rest,
        select := rebuild_options (P1 # rest),
        dat := assign_fields P1 ((dat s)\<lparr>preset := p_preset P1\<rparr>)\<rparr>))"
  by (simp add: onCatalogReplaced_def updatePresetsOptions_def applyPreset_def)

lemma scale_store_edit: "(\<forall>v. e \<noteq> EditScale v) \<Longrightarrow> scale (store_edit e d) = scale d"
  by (cases e) simp_all

subsection \<open>The dropdown\<close>

lemma options_fold_appendChild:
  "options (fold (\<lambda>p sel. appendChild (p_preset p) sel) ps sel0) =
   options sel0 @
   map (\<lambda>p. \<lparr>opt_value = p_preset p, opt_text = p_preset p, opt_disabled = False\<rparr>) ps"
  by (induction ps arbitrary: sel0) (simp_all add: appendChild_def)

lemma selectable_rebuild:
  "selectable (rebuild_options ps) = ''custom'' # map p_preset ps"
  by (simp add: rebuild_options_def selectable_def options_fold_appendChild set_innerHTML_def
        filter_map comp_def)

lemma select_updatePresetsOptions:
  "selectable (select (updatePresetsOptions s)) = ''custom'' # map p_preset (presets s)"
  by (cases "presets s")
     (simp_all add: updatePresetsOptions_def Let_def select_applyParams applyPreset_def
        select_applyPreset_loop selectable_rebuild)

section \<open>The claims\<close>

text \<open>
  Claim C1. In a catalogue whose names are unique, picking the name of any of its presets
  \<open>P\<close> copies every field of \<open>P\<close> (notes, thickness, sheet width and height, kerf, the nine
  joint-fit components and the style) into the data and leaves \<open>P\<close>'s name as the
  selected preset name.
\<close>

theorem selectPreset_bound:
  assumes "distinct (map p_preset (presets s))" and "P \<in> set (presets s)"
  shows "fields_match P (dat (selectPreset (p_preset P) s)) \<and>
         preset (dat (selectPreset (p_preset P) s)) = p_preset P"
proof -
  from assms(2) obtain pre post where sp: "presets s = pre @ P # post"
    by (auto dest: split_list)
  with assms(1) have nin: "p_preset P \<notin> p_preset ` set pre" by auto
  show ?thesis
    by (simp add: selectPreset_first_match[OF sp nin] dat_applyParams fields_match_assign
          preset_assign)
qed

theorem selectPreset_bound_witness:
  "distinct (map p_preset (presets (mounted [ply3mm, acrylic5mm]))) \<and>
   acrylic5mm \<in> set (presets (mounted [ply3mm, acrylic5mm])) \<and>
   fields_match acrylic5mm (dat (selectPreset ''acrylic5mm'' (mounted [ply3mm, acrylic5mm]))) \<and>
   preset (dat (selectPreset ''acrylic5mm'' (mounted [ply3mm, acrylic5mm]))) = ''acrylic5mm''"
  using selectPreset_bound [of "mounted [ply3mm, acrylic5mm]" acrylic5mm]
  by (simp add: presets_mounted ply3mm_def acrylic5mm_def)

text \<open>
  Claim C2. The claim asks that an edit which takes the data away from the selected preset
  turns the selected preset name into \<^verbatim>\<open>custom\<close>. On the catalogue of scenario A the
  component is bound to \<^verbatim>\<open>ply3mm\<close> after mounting; editing the thickness from 3 to 5 leaves
  the selected preset name \<^verbatim>\<open>ply3mm\<close> although the data no longer match that preset.
\<close>

theorem editField_keeps_selection:
  "preset (dat (mounted [ply3mm])) = ''ply3mm'' \<and>
   fields_match ply3mm (dat (mounted [ply3mm])) \<and>
   p_thickness ply3mm = 3 \<and>
   thickness (dat (editField (EditThickness 5) (mounted [ply3mm]))) = 5 \<and>
   preset (dat (editField (EditThickness 5) (mounted [ply3mm]))) = ''ply3mm'' \<and>
   \<not> fields_match ply3mm (dat (editField (EditThickness 5) (mounted [ply3mm])))"
  by (simp add: mounted_def updatePresetsOptions_def applyPreset_def
        editField_def dat_applyParams created_def fields_match_def assign_fields_def ply3mm_def)

text \<open>
  Replacing an empty catalogue by one with a single preset adds two \<^verbatim>\<open>update\<close> events to
  those emitted so far, not one.
\<close>

theorem catalog_replaced_emits_twice:
  "length (emitted (onCatalogReplaced [ply3mm] (mounted []))) =
   length (emitted (mounted [])) + 2"
  by (simp add: onCatalogReplaced_Cons applyParams_def)

text \<open>
  Claim C3, as amended. An edit of a field, and the selection of a name that the catalogue
  holds, each end by emitting exactly one snapshot. Replacing the catalogue ends by
  emitting one snapshot when the new catalogue is empty and the same snapshot twice when
  it is not. Each of these snapshots carries every field of the data, the selected preset
  name and the scale included, with the value the data have once the operation is over.
\<close>

theorem snapshot_emission:
  "(\<exists>u. emitted (editField e s) = emitted s @ [Update u] \<and>
        reflects u (dat (editField e s))) \<and>
   (name \<in> p_preset ` set (presets s) \<longrightarrow>
     (\<exists>u. emitted (selectPreset name s) = emitted s @ [Update u] \<and>
          reflects u (dat (selectPreset name s)))) \<and>
   (\<exists>u. emitted (onCatalogReplaced [] s) = emitted s @ [Update u] \<and>
        reflects u (dat (onCatalogReplaced [] s))) \<and>
   (c \<noteq> [] \<longrightarrow>
     (\<exists>u. emitted (onCatalogReplaced c s) = emitted s @ [Update u, Update u] \<and>
          reflects u (dat (onCatalogReplaced c s))))"
proof (intro conjI impI)
  show "\<exists>u. emitted (editField e s) = emitted s @ [Update u] \<and> reflects u (dat (editField e s))"
    unfolding editField_def using emitted_applyParams[of "s\<lparr>dat := store_edit e (dat s)\<rparr>"]
    by simp
next
  assume "name \<in> p_preset ` set (presets s)"
  then obtain pre P post where sp: "presets s = pre @ P # post"
    and nm: "p_preset P = name" and nin: "name \<notin> p_preset ` set pre"
    using split_list_first_prop[of "presets s" "\<lambda>p. p_preset p = name"] by force
  from nin nm have nin': "p_preset P \<notin> p_preset ` set pre" by simp
  show "\<exists>u. emitted (selectPreset name s) = emitted s @ [Update u] \<and>
            reflects u (dat (selectPreset name s))"
    using emitted_applyParams[of "s\<lparr>dat := assign_fields P ((dat s)\<lparr>preset := p_preset P\<rparr>)\<rparr>"]
    unfolding selectPreset_first_match[OF sp nin', unfolded nm] nm by simp
next
  show "\<exists>u. emitted (onCatalogReplaced [] s) = emitted s @ [Update u] \<and>
        reflects u (dat (onCatalogReplaced [] s))"
    unfolding onCatalogReplaced_Nil
    using emitted_applyParams
      [of "s\<lparr>presets := [], select := rebuild_options (presets (s\<lparr>presets := []\<rparr>))\<rparr>"]
    by simp
next
  assume "c \<noteq> []"
  then obtain P1 rest where c: "c = P1 # rest" by (cases c) auto
  show "\<exists>u. emitted (onCatalogReplaced c s) = emitted s @ [Update u, Update u] \<and>
          reflects u (dat (onCatalogReplaced c s))"
    unfolding c onCatalogReplaced_Cons
    using applyParams_twice[of "s\<lparr>presets := P1 # rest,
        select := rebuild_options (P1 # rest),
        dat := assign_fields P1 ((dat s)\<lparr>preset := p_preset P1\<rparr>)\<rparr>"] by simp
qed

theorem snapshot_emission_witness:
  "''ply3mm'' \<in> p_preset ` set (presets (mounted [ply3mm])) \<and> [acrylic5mm] \<noteq> [] \<and>
   (\<exists>u. emitted (selectPreset ''ply3mm'' (mounted [ply3mm])) =
          emitted (mounted [ply3mm]) @ [Update u] \<and>
        reflects u (dat (selectPreset ''ply3mm'' (mounted [ply3mm])))) \<and>
   (\<exists>u. emitted (onCatalogReplaced [acrylic5mm] (mounted [ply3mm])) =
          emitted (mounted [ply3mm]) @ [Update u, Update u] \<and>
        reflects u (dat (onCatalogReplaced [acrylic5mm] (mounted [ply3mm]))))"
  using snapshot_emission [of "EditScale 2" "mounted [ply3mm]" "''ply3mm''" "[acrylic5mm]"]
  by (simp add: presets_mounted ply3mm_def)

text \<open>
  Claim C4. Replacing the catalogue by a non-empty one applies its first entry: the data
  carry every field of that entry, and its name is the selected preset name.
\<close>

theorem catalog_replaced_selects_first:
  "fields_match P1 (dat (onCatalogReplaced (P1 # rest) s)) \<and>
   preset (dat (onCatalogReplaced (P1 # rest) s)) = p_preset P1"
  by (simp add: onCatalogReplaced_Cons dat_applyParams fields_match_assign preset_assign)

text \<open>
  With a catalogue entry that is itself named \<^verbatim>\<open>custom\<close>, picking \<^verbatim>\<open>custom\<close> after an edit
  of the thickness to 7 puts the entry's thickness 3 back.
\<close>

theorem select_custom_overwrites:
  "thickness (dat (editField (EditThickness 7) (mounted [custom_named]))) = 7 \<and>
   thickness (dat (selectPreset ''custom''
     (editField (EditThickness 7) (mounted [custom_named])))) = 3"
proof -
  let ?s = "editField (EditThickness 7) (mounted [custom_named])"
  have nm: "p_preset custom_named = ''custom''"
    by (simp add: custom_named_def)
  have "presets ?s = [] @ custom_named # []"
    by (simp add: presets_editField presets_mounted)
  then have "selectPreset (p_preset custom_named) ?s =
      applyParams (?s\<lparr>dat :=
        assign_fields custom_named ((dat ?s)\<lparr>preset := p_preset custom_named\<rparr>)\<rparr>)"
    by (rule selectPreset_first_match) simp
  then have "thickness (dat (selectPreset ''custom'' ?s)) = p_thickness custom_named"
    by (simp add: nm dat_applyParams assign_fields_def)
  moreover have "p_thickness custom_named = 3"
    by (simp add: custom_named_def ply3mm_def)
  moreover have "thickness (dat ?s) = 7"
    by (simp add: editField_def dat_applyParams)
  ultimately show ?thesis by simp
qed

text \<open>
  Claim C5, as amended. When no catalogue entry is named \<^verbatim>\<open>custom\<close>, picking \<^verbatim>\<open>custom\<close>
  makes \<^verbatim>\<open>custom\<close> the selected preset name and changes no other field of the data.
\<close>

theorem select_custom_frame:
  "''custom'' \<notin> p_preset ` set (presets s) \<Longrightarrow>
   dat (selectPreset ''custom'' s) = (dat s)\<lparr>preset := ''custom''\<rparr>"
  by (simp add: selectPreset_no_match)

theorem select_custom_frame_witness:
  "''custom'' \<notin> p_preset ` set (presets (mounted [ply3mm, acrylic5mm])) \<and>
   dat (selectPreset ''custom'' (mounted [ply3mm, acrylic5mm])) =
   (dat (mounted [ply3mm, acrylic5mm]))\<lparr>preset := ''custom''\<rparr>"
  using select_custom_frame [of "mounted [ply3mm, acrylic5mm]"]
  by (simp add: presets_mounted ply3mm_def acrylic5mm_def)

text \<open>
  Claim C6. A name that is neither \<^verbatim>\<open>custom\<close> nor the name of a catalogue entry copies
  no preset field: apart from the selected preset name, which is the name picked, the
  data are as before, and nothing is emitted.
\<close>

theorem select_unknown_noop:
  "name \<noteq> ''custom'' \<Longrightarrow> name \<notin> p_preset ` set (presets s) \<Longrightarrow>
   dat (selectPreset name s) = (dat s)\<lparr>preset := name\<rparr> \<and>
   emitted (selectPreset name s) = emitted s"
  by (simp add: selectPreset_no_match)

theorem select_unknown_noop_witness:
  "''nonexistent'' \<noteq> ''custom'' \<and>
   ''nonexistent'' \<notin> p_preset ` set (presets (mounted [ply3mm, acrylic5mm])) \<and>
   dat (selectPreset ''nonexistent'' (mounted [ply3mm, acrylic5mm])) =
     (dat (mounted [ply3mm, acrylic5mm]))\<lparr>preset := ''nonexistent''\<rparr> \<and>
   emitted (selectPreset ''nonexistent'' (mounted [ply3mm, acrylic5mm])) =
     emitted (mounted [ply3mm, acrylic5mm])"
  using select_unknown_noop [of "''nonexistent''" "mounted [ply3mm, acrylic5mm]"]
  by (simp add: presets_mounted ply3mm_def acrylic5mm_def)

text \<open>
  Claim C7. Replacing the catalogue by an empty one leaves the whole data, the selected
  preset name included, as they were.
\<close>

theorem catalog_empty_noop: "dat (onCatalogReplaced [] s) = dat s"
  by (simp add: onCatalogReplaced_Nil dat_applyParams)

text \<open>
  Claim C8. Picking a preset, replacing the catalogue and requesting an export leave the
  scale as it was, and so does every edit of another field; an edit of the scale stores
  the value given.
\<close>

theorem scale_frame:
  "scale (dat (selectPreset name s)) = scale (dat s) \<and>
   scale (dat (onCatalogReplaced c s)) = scale (dat s) \<and>
   scale (dat (requestExport s)) = scale (dat s) \<and>
   ((\<forall>v. e \<noteq> EditScale v) \<longrightarrow> scale (dat (editField e s)) = scale (dat s)) \<and>
   scale (dat (editField (EditScale v) s)) = v"
proof (intro conjI impI)
  show "scale (dat (selectPreset name s)) = scale (dat s)"
    by (simp add: selectPreset_def applyPreset_def scale_applyPreset_loop)
  show "scale (dat (onCatalogReplaced c s)) = scale (dat s)"
    by (cases c) (simp_all add: onCatalogReplaced_Nil onCatalogReplaced_Cons dat_applyParams
        scale_assign)
  show "scale (dat (requestExport s)) = scale (dat s)"
    by (simp add: requestExport_def downloadsvg_def)
  show "scale (dat (editField (EditScale v) s)) = v"
    by (simp add: editField_def dat_applyParams)
next
  assume "\<forall>v. e \<noteq> EditScale v"
  then show "scale (dat (editField e s)) = scale (dat s)"
    by (simp add: editField_def dat_applyParams scale_store_edit)
qed

theorem scale_frame_witness:
  "(\<forall>v. EditKerf (0.2::real) \<noteq> EditScale v) \<and>
   scale (dat (editField (EditKerf 0.2) (mounted [ply3mm]))) = scale (dat (mounted [ply3mm])) \<and>
   scale (dat (editField (EditScale 2) (mounted [ply3mm]))) = 2 \<and>
   scale (dat (selectPreset ''ply3mm'' (editField (EditScale 2) (mounted [ply3mm])))) = 2 \<and>
   scale (dat (onCatalogReplaced [acrylic5mm] (editField (EditScale 2) (mounted [ply3mm])))) = 2"
  using scale_frame [of "''ply3mm''" "editField (EditScale 2) (mounted [ply3mm])"
      "[acrylic5mm]" "EditKerf 0.2" 2]
    scale_frame [of "''ply3mm''" "mounted [ply3mm]" "[acrylic5mm]" "EditKerf 0.2" 2]
  by simp

text \<open>
  Claim C9. After a replacement of the catalogue the values that can be picked in the
  dropdown are \<^verbatim>\<open>custom\<close> followed by the names of the catalogue, in its order; a second
  replacement by a catalogue of the same names in the same order gives the same list.
\<close>

theorem selectable_list:
  "selectable (select (onCatalogReplaced c s)) = ''custom'' # map p_preset c \<and>
   (map p_preset c' = map p_preset c \<longrightarrow>
      selectable (select (onCatalogReplaced c' (onCatalogReplaced c s))) =
      selectable (select (onCatalogReplaced c s)))"
  by (simp add: onCatalogReplaced_def select_updatePresetsOptions)

theorem selectable_list_witness:
  "map p_preset [ply3mm\<lparr>p_kerf := 0.3\<rparr>, acrylic5mm] = map p_preset [ply3mm, acrylic5mm] \<and>
   selectable (select (onCatalogReplaced [ply3mm, acrylic5mm] (mounted []))) =
     [''custom'', ''ply3mm'', ''acrylic5mm''] \<and>
   selectable (select (onCatalogReplaced [ply3mm\<lparr>p_kerf := 0.3\<rparr>, acrylic5mm]
       (onCatalogReplaced [ply3mm, acrylic5mm] (mounted [])))) =
     [''custom'', ''ply3mm'', ''acrylic5mm'']"
  using selectable_list [of "[ply3mm, acrylic5mm]" "mounted []"
      "[ply3mm\<lparr>p_kerf := 0.3\<rparr>, acrylic5mm]"]
  by (simp add: ply3mm_def acrylic5mm_def)

text \<open>
  Claim C10. When several catalogue entries carry the name picked, the first of them in
  catalogue order is the one applied, whatever follows it: the data carry its fields, and
  a single snapshot is emitted, since the loop stops there.
\<close>

theorem first_duplicate_wins:
  assumes "presets s = pre @ P # post" and "p_preset P \<notin> p_preset ` set pre"
  shows "fields_match P (dat (selectPreset (p_preset P) s)) \<and>
         preset (dat (selectPreset (p_preset P) s)) = p_preset P \<and>
         (\<exists>u. emitted (selectPreset (p_preset P) s) = emitted s @ [Update u])"
  using emitted_applyParams
    [of "s\<lparr>dat := assign_fields P ((dat s)\<lparr>preset := p_preset P\<rparr>)\<rparr>"]
  by (auto simp add: selectPreset_first_match[OF assms] dat_applyParams fields_match_assign
        preset_assign)

theorem first_duplicate_wins_witness:
  "presets (mounted [acrylic5mm, ply3mm, ply3mm\<lparr>p_thickness := 9\<rparr>]) =
     [acrylic5mm] @ ply3mm # [ply3mm\<lparr>p_thickness := 9\<rparr>] \<and>
   p_preset ply3mm \<notin> p_preset ` set [acrylic5mm] \<and>
   p_preset (ply3mm\<lparr>p_thickness := 9\<rparr>) = p_preset ply3mm \<and>
   thickness (dat (selectPreset ''ply3mm''
     (mounted [acrylic5mm, ply3mm, ply3mm\<lparr>p_thickness := 9\<rparr>]))) = 3"
  using first_duplicate_wins [of "mounted [acrylic5mm, ply3mm, ply3mm\<lparr>p_thickness := 9\<rparr>]"
      "[acrylic5mm]" ply3mm "[ply3mm\<lparr>p_thickness := 9\<rparr>]"]
  by (simp add: presets_mounted fields_match_def ply3mm_def acrylic5mm_def)

end
